theory Spec2Isabelle
  imports Main "HOL-Library.AList"
begin

section \<open>Callback scopes of the N-API bridge (napi/src/sys/bindings.cc)\<close>

text \<open>
  The bridge has three functions: the static helper \<open>V8LocalValueFromJsValue\<close> and the
  two exported entry points \<open>extras_open_callback_scope\<close> and
  \<open>extras_close_callback_scope\<close>. They are straight-line C++ over the engine (v8.h) and
  the host runtime (node.h). The model makes the process state explicit and threads it
  through every call; each engine operation the three functions invoke is a definition
  of its own, so that the bodies below follow the C++ statement by statement.
\<close>

subsection \<open>Pointers and opaque handle types\<close>

text \<open>
  A native address; \<open>0\<close> is the null pointer. The opaque types of the ABI are one
  pointer wide, and so is \<open>v8::Local\<close>; each is a wrapper of the address it carries, and
  a \<open>reinterpret_cast\<close> or the \<open>memcpy\<close> between two of them moves the address
  unchanged.
\<close>

type_synonym addr = nat

datatype napi_value = NapiValue addr
datatype napi_async_context = NapiAsyncContext addr
datatype extras_callback_scope = ScopeHandle addr
datatype local = Local addr

subsection \<open>Script values and runtime objects\<close>

text \<open>
  What a handle designates. The payload of a number is never inspected by the bridge
  (a double in the engine, an integer here); an object is known by its identity.
\<close>

type_synonym obj_ref = nat

datatype js_value =
    JSUndefined
  | JSNull
  | JSBoolean bool
  | JSNumber int
  | JSString string
  | JSObject obj_ref

datatype js_object = Ordinary | Wrapper js_value

text \<open>
  \<open>node::async_context\<close>: the two ids of one asynchronous operation. The bridge only
  copies the struct (\<open>*node_async_context\<close>), so the ids stay opaque integers.
\<close>

record async_context =
  async_id :: int
  trigger_async_id :: int

text \<open>
  A \<open>node::CallbackScope\<close> object: what its constructor was given, namely the isolate,
  the resource object and a copy of the async context.
\<close>

record CallbackScope =
  scope_isolate :: addr
  scope_resource :: obj_ref
  scope_async_context :: async_context

text \<open>
  The process state the bridge reads and writes.
  \<^item> \<open>current_isolate\<close>: what \<open>v8::Isolate::GetCurrent()\<close> returns (null when no isolate
    is entered); \<open>current_context\<close>: the context entered in it (the empty handle
    \<open>Local 0\<close> when none is).
  \<^item> \<open>handles\<close>: the live handle slots and the value each designates; \<open>js_heap\<close>: the
    script-visible objects; \<open>pending_exception\<close>: a script exception is scheduled.
  \<^item> \<open>async_contexts\<close>: the \<open>node::async_context\<close> structs in native memory;
    \<open>scopes\<close>: the live \<open>node::CallbackScope\<close> objects on the C++ heap.
  \<^item> \<open>async_stack\<close>: the runtime's stack of async contexts, one frame per entered scope.
  \<^item> \<open>slots\<close>: the caller's variables of type \<open>extras_callback_scope\<close> (the memory
    \<open>result\<close> may point to); \<open>stores\<close>: every store the bridge made to one of them,
    in order.
\<close>

record world =
  current_isolate :: addr
  current_context :: local
  handles :: "(addr \<times> js_value) list"
  js_heap :: "(obj_ref \<times> js_object) list"
  pending_exception :: bool
  async_contexts :: "(addr \<times> async_context) list"
  scopes :: "(addr \<times> CallbackScope) list"
  async_stack :: "(async_context \<times> obj_ref) list"
  slots :: "(addr \<times> extras_callback_scope) list"
  stores :: "(addr \<times> extras_callback_scope) list"

text \<open>
  How a call ends: it returns to its caller with a value and the new state; the engine
  aborts the process (a fatal error, the state being the one at the abort); or the C++
  has undefined behaviour (a null or dangling pointer is dereferenced, a precondition of
  the engine is broken), about which nothing is known.
\<close>

datatype 'a outcome = Returned 'a world | Fatal world | Undefined

definition obind :: "'a outcome \<Rightarrow> ('a \<Rightarrow> world \<Rightarrow> 'b outcome) \<Rightarrow> 'b outcome" where
  "obind m f = (case m of Returned x w \<Rightarrow> f x w | Fatal w \<Rightarrow> Fatal w | Undefined \<Rightarrow> Undefined)"

text \<open>
  A fresh key of a table: above every key in use, and never \<open>0\<close>. The allocators of the
  C++ heap, of the script heap and of the handle scope all hand out such a key; memory
  is taken to be unbounded (an allocation never fails).
\<close>

fun fresh :: "(nat \<times> 'a) list \<Rightarrow> nat" where
  "fresh [] = 1"
| "fresh ((k, _) # al) = max (Suc k) (fresh al)"

subsection \<open>The engine operations the bridge calls\<close>

text \<open>
  \<open>v8::Isolate::GetCurrent()\<close> returns the isolate entered on this thread, or null.
  \<open>isolate->GetCurrentContext()\<close> is a member call: on a null isolate it is undefined;
  otherwise it returns the entered context, the empty handle when there is none.
\<close>

definition Isolate_GetCurrent :: "world \<Rightarrow> addr outcome" where
  "Isolate_GetCurrent w = Returned (current_isolate w) w"

definition Isolate_GetCurrentContext :: "addr \<Rightarrow> world \<Rightarrow> local outcome" where
  "Isolate_GetCurrentContext isolate w =
     (if isolate = 0 then Undefined else Returned (current_context w) w)"

text \<open>
  \<open>v8::Value::ToObject(context)\<close>, called through a handle (\<open>local->ToObject\<close>): the
  handle must designate a value. It is the script language's conversion to an object:
  an object is returned as it is, by the same handle and before the context is looked
  at; \<open>undefined\<close> and \<open>null\<close> have no object form, a TypeError is scheduled and the
  result is empty; a boolean, number or string is wrapped in a new object, designated by
  a new handle.
\<close>

definition Value_ToObject :: "local \<Rightarrow> local \<Rightarrow> world \<Rightarrow> local option outcome" where
  "Value_ToObject this context w =
     (case this of Local a \<Rightarrow>
        (case map_of (handles w) a of
           None \<Rightarrow> Undefined
         | Some v \<Rightarrow>
             (case v of
                JSObject _ \<Rightarrow> Returned (Some this) w
              | _ \<Rightarrow>
                  if context = Local 0 then Undefined
                  else if v = JSUndefined \<or> v = JSNull
                    then Returned None (w\<lparr>pending_exception := True\<rparr>)
                  else
                    let r = fresh (js_heap w); h = fresh (handles w)
                    in Returned (Some (Local h))
                         (w\<lparr>js_heap := (r, Wrapper v) # js_heap w,
                            handles := (h, JSObject r) # handles w\<rparr>))))"

text \<open>
  \<open>MaybeLocal::ToLocalChecked()\<close>: the handle when there is one; on an empty result the
  engine reports a fatal error and aborts the process.
\<close>

definition MaybeLocal_ToLocalChecked :: "local option \<Rightarrow> world \<Rightarrow> local outcome" where
  "MaybeLocal_ToLocalChecked m w = (case m of None \<Rightarrow> Fatal w | Some l \<Rightarrow> Returned l w)"

text \<open>
  \<open>*node_async_context\<close>: reading the struct behind the pointer, undefined when the
  pointer is not the address of one.
\<close>

definition load_async_context :: "addr \<Rightarrow> world \<Rightarrow> async_context outcome" where
  "load_async_context p w =
     (case map_of (async_contexts w) p of None \<Rightarrow> Undefined | Some c \<Rightarrow> Returned c w)"

text \<open>
  Modelled from the spec: the constructor of \<open>node::CallbackScope\<close> is the host
  runtime's, not this repository's. By the spec the current execution context must be
  retrievable, and failing to resolve it is fatal (a hard failure, never ignored): with
  no entered context the constructor aborts the process and no scope is constructed.
  Otherwise it binds the scope to the isolate, the resource object and the async
  context, and pushes one frame on the runtime's async-context stack.
\<close>

definition CallbackScope_ctor ::
    "addr \<Rightarrow> local \<Rightarrow> async_context \<Rightarrow> world \<Rightarrow> CallbackScope outcome" where
  "CallbackScope_ctor isolate object asyncContext w =
     (if isolate = 0 then Undefined
      else if current_context w = Local 0 then Fatal w
      else
        (case object of Local a \<Rightarrow>
           (case map_of (handles w) a of
              Some (JSObject r) \<Rightarrow>
                Returned
                  \<lparr>scope_isolate = isolate, scope_resource = r,
                   scope_async_context = asyncContext\<rparr>
                  (w\<lparr>async_stack := (asyncContext, r) # async_stack w\<rparr>)
            | _ \<Rightarrow> Undefined)))"

text \<open>
  Modelled from the spec: the destructor of \<open>node::CallbackScope\<close> is the host
  runtime's, not this repository's. By the spec it pops the scope's frame off the
  runtime's async-context stack, and scopes must be closed in strict reverse order of
  opening: when the frame on top is not the one this scope pushed (an out-of-order
  close), or the stack is empty, the behaviour is undefined.
\<close>

definition CallbackScope_dtor :: "CallbackScope \<Rightarrow> world \<Rightarrow> unit outcome" where
  "CallbackScope_dtor sc w =
     (case async_stack w of
        [] \<Rightarrow> Undefined
      | frame # frames \<Rightarrow>
          if frame = (scope_async_context sc, scope_resource sc)
          then Returned () (w\<lparr>async_stack := frames\<rparr>)
          else Undefined)"

text \<open>
  The \<open>new\<close> expression \<open>new node::CallbackScope(isolate, object, asyncContext)\<close>:
  storage at a fresh, non-null address, then the constructor, whose object lives there.
\<close>

definition new_CallbackScope ::
    "addr \<Rightarrow> local \<Rightarrow> async_context \<Rightarrow> world \<Rightarrow> addr outcome" where
  "new_CallbackScope isolate object asyncContext w =
     (let p = fresh (scopes w)
      in obind (CallbackScope_ctor isolate object asyncContext w)
           (\<lambda>sc w'. Returned p (w'\<lparr>scopes := (p, sc) # scopes w'\<rparr>)))"

text \<open>
  The \<open>delete\<close> expression on a \<open>node::CallbackScope*\<close>: nothing on a null pointer;
  on the address of a live object the destructor, then the storage is released; on any
  other address undefined.
\<close>

definition delete_CallbackScope :: "addr \<Rightarrow> world \<Rightarrow> unit outcome" where
  "delete_CallbackScope p w =
     (if p = 0 then Returned () w
      else
        (case map_of (scopes w) p of
           None \<Rightarrow> Undefined
         | Some sc \<Rightarrow>
             obind (CallbackScope_dtor sc w)
               (\<lambda>_ w'. Returned () (w'\<lparr>scopes := AList.delete p (scopes w')\<rparr>))))"

text \<open>
  The store \<open>*result = h\<close>: undefined unless \<open>result\<close> is the address of a caller's
  variable; the store is logged.
\<close>

definition store_result :: "addr \<Rightarrow> extras_callback_scope \<Rightarrow> world \<Rightarrow> unit outcome" where
  "store_result result h w =
     (case map_of (slots w) result of
        None \<Rightarrow> Undefined
      | Some _ \<Rightarrow>
          Returned ()
            (w\<lparr>slots := AList.update result h (slots w),
               stores := stores w @ [(result, h)]\<rparr>))"

subsection \<open>The bridge\<close>

text \<open>
  \<open>V8LocalValueFromJsValue\<close>: \<open>memcpy(&local, &v, sizeof(v))\<close> copies the pointer held
  by the \<open>napi_value\<close> into the \<open>v8::Local\<close>.
\<close>

definition V8LocalValueFromJsValue :: "napi_value \<Rightarrow> local" where
  "V8LocalValueFromJsValue v = (case v of NapiValue a \<Rightarrow> Local a)"

text \<open>The two \<open>reinterpret_cast\<close>s of the open and the one of the close.\<close>

definition cast_to_node_async_context :: "napi_async_context \<Rightarrow> addr" where
  "cast_to_node_async_context c = (case c of NapiAsyncContext p \<Rightarrow> p)"

definition cast_to_extras_callback_scope :: "addr \<Rightarrow> extras_callback_scope" where
  "cast_to_extras_callback_scope p = ScopeHandle p"

definition cast_to_CallbackScope :: "extras_callback_scope \<Rightarrow> addr" where
  "cast_to_CallbackScope h = (case h of ScopeHandle p \<Rightarrow> p)"

text \<open>
  \<open>extras_open_callback_scope\<close>, statement by statement: the current isolate, its
  current context, the resource converted and checked, the async context pointer cast,
  the scope allocated and constructed on a copy of the async context, the handle stored
  through \<open>result\<close>.
\<close>

definition extras_open_callback_scope ::
    "napi_async_context \<Rightarrow> napi_value \<Rightarrow> addr \<Rightarrow> world \<Rightarrow> unit outcome" where
  "extras_open_callback_scope napi_async_context napi_resource_object result w =
     obind (Isolate_GetCurrent w) (\<lambda>isolate w.
     obind (Isolate_GetCurrentContext isolate w) (\<lambda>context w.
     obind (Value_ToObject (V8LocalValueFromJsValue napi_resource_object) context w) (\<lambda>maybe w.
     obind (MaybeLocal_ToLocalChecked maybe w) (\<lambda>resource_object w.
     let node_async_context = cast_to_node_async_context napi_async_context in
     obind (load_async_context node_async_context w) (\<lambda>actx w.
     obind (new_CallbackScope isolate resource_object actx w) (\<lambda>p w.
     store_result result (cast_to_extras_callback_scope p) w))))))"

text \<open>\<open>extras_close_callback_scope\<close>: the handle cast back and deleted.\<close>

definition extras_close_callback_scope :: "extras_callback_scope \<Rightarrow> world \<Rightarrow> unit outcome" where
  "extras_close_callback_scope callback_scope w =
     delete_CallbackScope (cast_to_CallbackScope callback_scope) w"

subsection \<open>Sequences of calls\<close>

text \<open>
  A caller is a sequence of calls to the two entry points, each run on the state the
  previous one left; a call that does not return ends the sequence.
\<close>

datatype call =
    Open napi_async_context napi_value addr
  | Close extras_callback_scope

fun call_step :: "call \<Rightarrow> world \<Rightarrow> unit outcome" where
  "call_step (Open c v s) w = extras_open_callback_scope c v s w"
| "call_step (Close h) w = extras_close_callback_scope h w"

fun run :: "call list \<Rightarrow> world \<Rightarrow> unit outcome" where
  "run [] w = Returned () w"
| "run (c # cs) w = obind (call_step c w) (\<lambda>_ w'. run cs w')"

text \<open>
  Nested opens: each open is followed by reading the handle it stored through its
  \<open>result\<close> pointer; the handles are collected in the order of opening.
\<close>

fun open_nested ::
    "(napi_async_context \<times> napi_value \<times> addr) list \<Rightarrow> world \<Rightarrow> extras_callback_scope list outcome" where
  "open_nested [] w = Returned [] w"
| "open_nested ((c, v, s) # rest) w =
     obind (extras_open_callback_scope c v s w) (\<lambda>_ w1.
       case map_of (slots w1) s of
         None \<Rightarrow> Undefined
       | Some h \<Rightarrow> obind (open_nested rest w1) (\<lambda>hs w2. Returned (h # hs) w2))"

text \<open>
  The inputs an open is specified for: the async context pointer is the address of a
  \<open>node::async_context\<close>, the resource handle designates an object, and \<open>result\<close> is
  the address of a caller's variable.
\<close>

definition valid_open_args :: "world \<Rightarrow> napi_async_context \<times> napi_value \<times> addr \<Rightarrow> bool" where
  "valid_open_args w args =
     (case args of (NapiAsyncContext p, NapiValue a, s) \<Rightarrow>
        map_of (async_contexts w) p \<noteq> None
        \<and> (case map_of (handles w) a of Some (JSObject _) \<Rightarrow> True | _ \<Rightarrow> False)
        \<and> map_of (slots w) s \<noteq> None)"

text \<open>
  A state to evaluate on: an isolate with an entered context; handles for a plain
  object, the number 42, \<open>undefined\<close> and a second object; two async contexts; two
  caller variables, still null; no scope open.
\<close>

definition world0 :: world where
  "world0 =
     \<lparr>current_isolate = 4096, current_context = Local 64,
      handles = [(8, JSObject 1), (16, JSNumber 42), (24, JSUndefined), (32, JSObject 2)],
      js_heap = [(1, Ordinary), (2, Ordinary)],
      pending_exception = False,
      async_contexts =
        [(512, \<lparr>async_id = 7, trigger_async_id = 3\<rparr>),
         (528, \<lparr>async_id = 9, trigger_async_id = 7\<rparr>)],
      scopes = [], async_stack = [],
      slots = [(1024, ScopeHandle 0), (1032, ScopeHandle 0)],
      stores = []\<rparr>"

text \<open>
  The states reached from it by opening a scope on the first object with the first
  async context and the first variable, and then a second scope on the second object
  with the second async context and the second variable.
\<close>

definition world1 :: world where
  "world1 =
     world0\<lparr>async_stack := [(\<lparr>async_id = 7, trigger_async_id = 3\<rparr>, 1)],
       scopes := [(1, \<lparr>scope_isolate = 4096, scope_resource = 1,
                    scope_async_context = \<lparr>async_id = 7, trigger_async_id = 3\<rparr>\<rparr>)],
       slots := [(1024, ScopeHandle 1), (1032, ScopeHandle 0)],
       stores := [(1024, ScopeHandle 1)]\<rparr>"

definition world2 :: world where
  "world2 =
     world1\<lparr>async_stack :=
         [(\<lparr>async_id = 9, trigger_async_id = 7\<rparr>, 2), (\<lparr>async_id = 7, trigger_async_id = 3\<rparr>, 1)],
       scopes :=
         [(2, \<lparr>scope_isolate = 4096, scope_resource = 2,
               scope_async_context = \<lparr>async_id = 9, trigger_async_id = 7\<rparr>\<rparr>),
          (1, \<lparr>scope_isolate = 4096, scope_resource = 1,
               scope_async_context = \<lparr>async_id = 7, trigger_async_id = 3\<rparr>\<rparr>)],
       slots := [(1024, ScopeHandle 1), (1032, ScopeHandle 2)],
       stores := [(1024, ScopeHandle 1), (1032, ScopeHandle 2)]\<rparr>"

section \<open>Properties\<close>

subsection \<open>Auxiliary facts\<close>

lemma fresh_pos: "0 < fresh al"
  by (induction al rule: fresh.induct) auto

lemma fresh_gt: "(k, v) \<in> set al \<Longrightarrow> k < fresh al"
  by (induction al rule: fresh.induct) auto

lemma fresh_notin: "fresh al \<notin> fst ` set al"
  using fresh_gt by fastforce

lemma map_of_fresh: "map_of al (fresh al) = None"
  by (simp add: map_of_eq_None_iff fresh_notin)

lemmas bridge_defs =
  extras_open_callback_scope_def extras_close_callback_scope_def obind_def
  Isolate_GetCurrent_def Isolate_GetCurrentContext_def Value_ToObject_def
  MaybeLocal_ToLocalChecked_def load_async_context_def new_CallbackScope_def
  CallbackScope_ctor_def CallbackScope_dtor_def delete_CallbackScope_def store_result_def
  V8LocalValueFromJsValue_def cast_to_node_async_context_def
  cast_to_extras_callback_scope_def cast_to_CallbackScope_def

text \<open>The open on an object resource, in closed form.\<close>

lemma open_object:
  assumes "current_isolate w \<noteq> 0" "current_context w \<noteq> Local 0"
    and "map_of (handles w) a = Some (JSObject r)"
    and "map_of (async_contexts w) p = Some actx"
    and "map_of (slots w) s = Some old"
  shows "extras_open_callback_scope (NapiAsyncContext p) (NapiValue a) s w =
    Returned ()
      (w\<lparr>async_stack := (actx, r) # async_stack w,
         scopes := (fresh (scopes w),
           \<lparr>scope_isolate = current_isolate w, scope_resource = r,
            scope_async_context = actx\<rparr>) # scopes w,
         slots := AList.update s (ScopeHandle (fresh (scopes w))) (slots w),
         stores := stores w @ [(s, ScopeHandle (fresh (scopes w)))]\<rparr>)"
  using assms by (simp add: bridge_defs Let_def)

text \<open>What every returning open has done.\<close>

lemma open_returned:
  assumes "extras_open_callback_scope c v s w = Returned u w1"
  shows "\<exists>sc. scopes w1 = (fresh (scopes w), sc) # scopes w
    \<and> async_stack w1 = (scope_async_context sc, scope_resource sc) # async_stack w
    \<and> stores w1 = stores w @ [(s, ScopeHandle (fresh (scopes w)))]
    \<and> map_of (slots w1) s = Some (ScopeHandle (fresh (scopes w)))"
  using assms
  by (auto simp: bridge_defs Let_def AList.update_conv'
      split: napi_value.splits napi_async_context.splits local.splits option.splits
        js_value.splits if_splits)

text \<open>
  The close of a live scope whose frame is on top of the stack, and what every returning
  close has done.
\<close>

lemma close_live:
  assumes "p \<noteq> 0" "map_of (scopes w) p = Some sc"
    and "async_stack w = (scope_async_context sc, scope_resource sc) # frames"
  shows "extras_close_callback_scope (ScopeHandle p) w =
    Returned () (w\<lparr>async_stack := frames, scopes := AList.delete p (scopes w)\<rparr>)"
  using assms by (simp add: bridge_defs)

lemma close_returned:
  assumes "extras_close_callback_scope h w = Returned u w1"
  shows "(h = ScopeHandle 0 \<and> w1 = w)
    \<or> (\<exists>p frame. h = ScopeHandle p \<and> p \<noteq> 0 \<and> map_of (scopes w) p \<noteq> None
          \<and> async_stack w = frame # async_stack w1
          \<and> scopes w1 = AList.delete p (scopes w))"
  using assms
  by (auto simp: bridge_defs split: extras_callback_scope.splits option.splits
      list.splits if_splits)



text \<open>A sequence of calls splits at any point.\<close>

lemma run_append: "run (xs @ ys) w = obind (run xs w) (\<lambda>_ w'. run ys w')"
  by (induction xs arbitrary: w) (auto simp: obind_def split: outcome.splits)



text \<open>A live scope is touched by no call but its own close.\<close>

lemma call_step_keeps_scope:
  assumes "call_step c w = Returned u w'" "c \<noteq> Close (ScopeHandle p)"
    and "map_of (scopes w) p = Some sc"
  shows "map_of (scopes w') p = Some sc"
proof (cases c)
  case (Open a v s)
  with assms(1) have "extras_open_callback_scope a v s w = Returned u w'" by simp
  from open_returned [OF this] obtain sc' where
    eq: "scopes w' = (fresh (scopes w), sc') # scopes w"
    by blast
  from assms(3) map_of_fresh [of "scopes w"] have "fresh (scopes w) \<noteq> p" by auto
  with eq assms(3) show ?thesis by simp
next
  case (Close h)
  with assms(1) have "extras_close_callback_scope h w = Returned u w'" by simp
  from close_returned [OF this] show ?thesis
  proof
    assume "h = ScopeHandle 0 \<and> w' = w"
    with assms(3) show ?thesis by simp
  next
    assume "\<exists>q frame. h = ScopeHandle q \<and> q \<noteq> 0 \<and> map_of (scopes w) q \<noteq> None
          \<and> async_stack w = frame # async_stack w'
          \<and> scopes w' = AList.delete q (scopes w)"
    then obtain q where h: "h = ScopeHandle q" and sc: "scopes w' = AList.delete q (scopes w)"
      by blast
    from h Close assms(2) have "p \<noteq> q" by auto
    with sc assms(3) show ?thesis by simp
  qed
qed

lemma run_keeps_scope:
  assumes "run cs w = Returned u w'" "Close (ScopeHandle p) \<notin> set cs"
    and "map_of (scopes w) p = Some sc"
  shows "map_of (scopes w') p = Some sc"
  using assms
proof (induction cs arbitrary: w)
  case Nil
  then show ?case by simp
next
  case (Cons c cs)
  from Cons.prems(1) obtain u1 w1 where
    step: "call_step c w = Returned u1 w1" and rest: "run cs w1 = Returned u w'"
    by (auto simp: obind_def split: outcome.splits)
  from Cons.prems(2) have "c \<noteq> Close (ScopeHandle p)" "Close (ScopeHandle p) \<notin> set cs"
    by auto
  from Cons.IH [OF rest this(2) call_step_keeps_scope [OF step this(1) Cons.prems(3)]]
  show ?case .
qed


text \<open>An open leaves the inputs of later opens valid.\<close>

lemma valid_open_args_after_open:
  assumes "valid_open_args w x"
    and "handles w' = handles w" "async_contexts w' = async_contexts w"
    and "slots w' = AList.update s h (slots w)"
  shows "valid_open_args w' x"
  using assms
  by (auto simp: valid_open_args_def AList.update_conv'
      split: prod.splits napi_async_context.splits napi_value.splits)

text \<open>
  Nested opens on valid inputs all return, and closing the handles in reverse order
  returns too and restores both the async-context stack and the heap of scopes.
\<close>

lemma nested_open_close:
  assumes "current_isolate w \<noteq> 0" "current_context w \<noteq> Local 0"
    and "list_all (valid_open_args w) args"
  shows "\<exists>hs w1 w2. open_nested args w = Returned hs w1
    \<and> length hs = length args
    \<and> length (async_stack w1) = length (async_stack w) + length args
    \<and> run (map Close (rev hs)) w1 = Returned () w2
    \<and> async_stack w2 = async_stack w \<and> scopes w2 = scopes w"
  using assms
proof (induction args arbitrary: w)
  case Nil
  then show ?case by simp
next
  case (Cons x rest)
  obtain c v s where x: "x = (c, v, s)" by (cases x) auto
  obtain p where c: "c = NapiAsyncContext p" by (cases c) auto
  obtain a where v: "v = NapiValue a" by (cases v) auto
  from Cons.prems(3) have vx: "valid_open_args w x" and vrest: "list_all (valid_open_args w) rest"
    by simp_all
  from vx x c v obtain actx r old where
    ac: "map_of (async_contexts w) p = Some actx"
    and ha: "map_of (handles w) a = Some (JSObject r)"
    and sl: "map_of (slots w) s = Some old"
    by (auto simp: valid_open_args_def split: option.splits js_value.splits)
  define q where "q = fresh (scopes w)"
  define sc where "sc = \<lparr>scope_isolate = current_isolate w, scope_resource = r,
            scope_async_context = actx\<rparr>"
  define wa where "wa = w\<lparr>async_stack := (actx, r) # async_stack w,
         scopes := (q, sc) # scopes w,
         slots := AList.update s (ScopeHandle q) (slots w),
         stores := stores w @ [(s, ScopeHandle q)]\<rparr>"
  have op: "extras_open_callback_scope c v s w = Returned () wa"
    unfolding c v wa_def q_def sc_def by (rule open_object [OF Cons.prems(1,2) ha ac sl])
  have slot: "map_of (slots wa) s = Some (ScopeHandle q)"
    by (simp add: wa_def AList.update_conv')
  have iso: "current_isolate wa \<noteq> 0" "current_context wa \<noteq> Local 0"
    using Cons.prems(1,2) by (simp_all add: wa_def)
  have "valid_open_args wa y" if "valid_open_args w y" for y
    by (rule valid_open_args_after_open [OF that, where s = s and h = "ScopeHandle q"])
      (simp_all add: wa_def)
  with vrest have "list_all (valid_open_args wa) rest"
    by (simp add: list_all_iff)
  from Cons.IH [OF iso this] obtain hs w1 w2 where
    on: "open_nested rest wa = Returned hs w1"
    and len: "length hs = length rest"
    and depth: "length (async_stack w1) = length (async_stack wa) + length rest"
    and cl: "run (map Close (rev hs)) w1 = Returned () w2"
    and st: "async_stack w2 = async_stack wa"
    and scs: "scopes w2 = scopes wa"
    by blast
  have on': "open_nested (x # rest) w = Returned (ScopeHandle q # hs) w1"
    by (simp add: x op slot on obind_def)
  have qnz: "q \<noteq> 0" using fresh_pos [of "scopes w"] by (simp add: q_def)
  have live: "map_of (scopes w2) q = Some sc" by (simp add: scs wa_def)
  have st2: "async_stack w2 = (scope_async_context sc, scope_resource sc) # async_stack w"
    by (simp add: st wa_def sc_def)
  have del: "AList.delete q (scopes w2) = scopes w"
    using fresh_notin [of "scopes w"] by (simp add: scs wa_def q_def)
  define w3 where "w3 = w2\<lparr>async_stack := async_stack w, scopes := AList.delete q (scopes w2)\<rparr>"
  have "extras_close_callback_scope (ScopeHandle q) w2 = Returned () w3"
    unfolding w3_def by (rule close_live [OF qnz live st2])
  then have cl': "run (map Close (rev (ScopeHandle q # hs))) w1 = Returned () w3"
    by (simp add: run_append cl obind_def)
  have "async_stack w3 = async_stack w" "scopes w3 = scopes w"
    by (simp_all add: w3_def del)
  moreover have "length (async_stack w1) = length (async_stack w) + length (x # rest)"
    using depth by (simp add: wa_def)
  moreover have "length (ScopeHandle q # hs) = length (x # rest)"
    using len by simp
  ultimately show ?case using on' cl' by blast
qed

text \<open>The calls of the example, evaluated.\<close>

lemma open_world0:
  "extras_open_callback_scope (NapiAsyncContext 512) (NapiValue 8) 1024 world0 = Returned () world1"
  by (simp add: world0_def world1_def bridge_defs Let_def)

lemma open_world1:
  "extras_open_callback_scope (NapiAsyncContext 528) (NapiValue 32) 1032 world1 = Returned () world2"
  by (simp add: world0_def world1_def world2_def bridge_defs Let_def)

lemma close_world2:
  "extras_close_callback_scope (ScopeHandle 2) world2 =
     Returned () (world2\<lparr>async_stack := async_stack world1, scopes := scopes world1\<rparr>)"
  by (simp add: world0_def world1_def world2_def bridge_defs)

lemma close_world1:
  "extras_close_callback_scope (ScopeHandle 1) world1 =
     Returned () (world1\<lparr>async_stack := [], scopes := []\<rparr>)"
  by (simp add: world0_def world1_def bridge_defs)

subsection \<open>The claims\<close>

text \<open>
  Claim C1, as the code has it. The claim reads: an open whose resource value does not
  designate an object fails with a TypeMismatch, constructs no scope and produces no
  handle. The code has no check of its own and no way to report a failure (it returns
  \<open>void\<close>): it hands the value to the engine's conversion and unwraps the result with
  \<open>ToLocalChecked\<close>. So, with a current isolate and an entered context, for a
  resource value that designates \<open>undefined\<close> or \<open>null\<close> the conversion is empty and
  the checked unwrap aborts the process: the call does not return, no scope is
  constructed, no frame is pushed, and the caller's variable is not written.
\<close>

theorem open_undefined_or_null_resource_aborts:
  assumes "current_isolate w \<noteq> 0" "current_context w \<noteq> Local 0"
    and "map_of (handles w) a = Some v" "v = JSUndefined \<or> v = JSNull"
  shows "\<exists>w'. extras_open_callback_scope c (NapiValue a) s w = Fatal w'
    \<and> scopes w' = scopes w \<and> async_stack w' = async_stack w
    \<and> slots w' = slots w \<and> stores w' = stores w"
  using assms by (auto simp: bridge_defs)

theorem open_undefined_or_null_resource_aborts_witness:
  "current_isolate world0 \<noteq> 0 \<and> current_context world0 \<noteq> Local 0
   \<and> map_of (handles world0) 24 = Some JSUndefined
   \<and> extras_open_callback_scope (NapiAsyncContext 512) (NapiValue 24) 1024 world0 =
       Fatal (world0\<lparr>pending_exception := True\<rparr>)"
proof -
  have h: "current_isolate world0 \<noteq> 0" "current_context world0 \<noteq> Local 0"
    "map_of (handles world0) 24 = Some JSUndefined"
    by (simp_all add: world0_def)
  have "extras_open_callback_scope (NapiAsyncContext 512) (NapiValue 24) 1024 world0 =
       Fatal (world0\<lparr>pending_exception := True\<rparr>)"
    using open_undefined_or_null_resource_aborts [OF h, of "NapiAsyncContext 512" 1024]
    by (simp add: world0_def bridge_defs)
  with h show ?thesis by blast
qed

text \<open>
  Claim C1 as stated fails on a number: the engine converts the number 42 to a wrapper
  object (a new script object and a new handle), the scope is constructed on it, and
  the handle to the scope is stored in the caller's variable.
\<close>

theorem open_number_resource_counterexample:
  "map_of (handles world0) 16 = Some (JSNumber 42)
   \<and> extras_open_callback_scope (NapiAsyncContext 512) (NapiValue 16) 1024 world0 =
     Returned ()
       (world0\<lparr>handles := (33, JSObject 3) # handles world0,
          js_heap := (3, Wrapper (JSNumber 42)) # js_heap world0,
          async_stack := [(\<lparr>async_id = 7, trigger_async_id = 3\<rparr>, 3)],
          scopes := [(1, \<lparr>scope_isolate = 4096, scope_resource = 3,
                    scope_async_context = \<lparr>async_id = 7, trigger_async_id = 3\<rparr>\<rparr>)],
          slots := [(1024, ScopeHandle 1), (1032, ScopeHandle 0)],
          stores := [(1024, ScopeHandle 1)]\<rparr>)"
  by (simp add: world0_def bridge_defs Let_def)

text \<open>
  Claim C2: for \<open>N \<ge> 1\<close> nested opens on valid (async context, object resource)
  pairs, followed by the closes of the returned handles in reverse order, every call
  returns; the opens raise the depth of the async-context stack by \<open>N\<close> (one frame
  each), and after the last close the depth is what it was before the first open.
\<close>

theorem nested_scopes_restore_stack_depth:
  assumes "current_isolate w \<noteq> 0" "current_context w \<noteq> Local 0"
    and "1 \<le> length args" "list_all (valid_open_args w) args"
  shows "\<exists>hs w1 w2. open_nested args w = Returned hs w1
    \<and> length hs = length args
    \<and> length (async_stack w1) = length (async_stack w) + length args
    \<and> run (map Close (rev hs)) w1 = Returned () w2
    \<and> length (async_stack w2) = length (async_stack w)"
proof -
  from nested_open_close [OF assms(1,2,4)] obtain hs w1 w2 where
    "open_nested args w = Returned hs w1" "length hs = length args"
    "length (async_stack w1) = length (async_stack w) + length args"
    "run (map Close (rev hs)) w1 = Returned () w2"
    "async_stack w2 = async_stack w"
    by blast
  then show ?thesis by auto
qed

theorem nested_scopes_restore_stack_depth_witness:
  "current_isolate world0 \<noteq> 0 \<and> current_context world0 \<noteq> Local 0
   \<and> list_all (valid_open_args world0)
       [(NapiAsyncContext 512, NapiValue 8, 1024), (NapiAsyncContext 528, NapiValue 32, 1032)]
   \<and> open_nested
       [(NapiAsyncContext 512, NapiValue 8, 1024), (NapiAsyncContext 528, NapiValue 32, 1032)]
       world0 = Returned [ScopeHandle 1, ScopeHandle 2] world2
   \<and> length (async_stack world2) = length (async_stack world0) + 2
   \<and> run (map Close (rev [ScopeHandle 1, ScopeHandle 2])) world2 =
       Returned () (world2\<lparr>async_stack := [], scopes := []\<rparr>)"
proof -
  let ?args = "[(NapiAsyncContext 512, NapiValue 8, 1024), (NapiAsyncContext 528, NapiValue 32, 1032)]"
  have h: "current_isolate world0 \<noteq> 0" "current_context world0 \<noteq> Local 0"
    "1 \<le> length ?args" "list_all (valid_open_args world0) ?args"
    by (simp_all add: world0_def valid_open_args_def)
  have s1: "map_of (slots world1) 1024 = Some (ScopeHandle 1)"
    by (simp add: world1_def)
  have s2: "map_of (slots world2) 1032 = Some (ScopeHandle 2)"
    by (simp add: world2_def)
  have o: "open_nested ?args world0 = Returned [ScopeHandle 1, ScopeHandle 2] world2"
    by (simp add: open_world0 open_world1 obind_def s1 s2)
  have d: "length (async_stack world2) = length (async_stack world0) + 2"
    by (simp add: world0_def world1_def world2_def)
  have c: "run (map Close (rev [ScopeHandle 1, ScopeHandle 2])) world2 =
       Returned () (world2\<lparr>async_stack := [], scopes := []\<rparr>)"
    by (simp add: close_world2 obind_def) (simp add: world0_def world1_def world2_def bridge_defs)
  from nested_scopes_restore_stack_depth [OF h] h o d c show ?thesis by blast
qed

text \<open>
  Claim C3: with a current isolate and an entered context, an async context, a resource
  value that designates an object and a caller's variable to store into, the open
  returns; it has constructed, at a fresh non-null address, a scope bound to the
  isolate, the resource object and the async context, and stored the handle to it in
  the caller's variable. The scope stays as it is through every later sequence of calls
  that does not close it, and a close of its handle ends it.
\<close>

theorem open_object_resource_succeeds:
  assumes "current_isolate w \<noteq> 0" "current_context w \<noteq> Local 0"
    and "map_of (handles w) a = Some (JSObject r)"
    and "map_of (async_contexts w) c = Some actx"
    and "map_of (slots w) s = Some old"
  shows "\<exists>w1 p sc. extras_open_callback_scope (NapiAsyncContext c) (NapiValue a) s w = Returned () w1
    \<and> sc = \<lparr>scope_isolate = current_isolate w, scope_resource = r, scope_async_context = actx\<rparr>
    \<and> p \<noteq> 0 \<and> map_of (scopes w) p = None \<and> map_of (scopes w1) p = Some sc
    \<and> map_of (slots w1) s = Some (ScopeHandle p)
    \<and> (\<forall>cs w2. Close (ScopeHandle p) \<notin> set cs \<and> run cs w1 = Returned () w2
          \<longrightarrow> map_of (scopes w2) p = Some sc)
    \<and> (\<forall>w2 w3. extras_close_callback_scope (ScopeHandle p) w2 = Returned () w3
          \<longrightarrow> map_of (scopes w3) p = None)"
proof -
  define p where "p = fresh (scopes w)"
  define sc where
    "sc = \<lparr>scope_isolate = current_isolate w, scope_resource = r, scope_async_context = actx\<rparr>"
  define w1 where "w1 = w\<lparr>async_stack := (actx, r) # async_stack w,
         scopes := (p, sc) # scopes w,
         slots := AList.update s (ScopeHandle p) (slots w),
         stores := stores w @ [(s, ScopeHandle p)]\<rparr>"
  have op: "extras_open_callback_scope (NapiAsyncContext c) (NapiValue a) s w = Returned () w1"
    unfolding w1_def p_def sc_def by (rule open_object [OF assms])
  have nz: "p \<noteq> 0" using fresh_pos [of "scopes w"] by (simp add: p_def)
  have new: "map_of (scopes w) p = None" unfolding p_def by (rule map_of_fresh)
  have live: "map_of (scopes w1) p = Some sc" by (simp add: w1_def)
  have slot: "map_of (slots w1) s = Some (ScopeHandle p)"
    by (simp add: w1_def AList.update_conv')
  have keep: "map_of (scopes w2) p = Some sc"
    if "Close (ScopeHandle p) \<notin> set cs \<and> run cs w1 = Returned () w2" for cs w2
    using that run_keeps_scope [OF _ _ live] by blast
  have gone: "map_of (scopes w3) p = None"
    if "extras_close_callback_scope (ScopeHandle p) w2 = Returned () w3" for w2 w3
    using close_returned [OF that] nz by (auto simp: AList.delete_conv')
  from op nz new live slot keep gone show ?thesis
    unfolding sc_def by blast
qed

theorem open_object_resource_succeeds_witness:
  "current_isolate world0 \<noteq> 0 \<and> current_context world0 \<noteq> Local 0
   \<and> map_of (handles world0) 8 = Some (JSObject 1)
   \<and> map_of (async_contexts world0) 512 = Some \<lparr>async_id = 7, trigger_async_id = 3\<rparr>
   \<and> map_of (slots world0) 1024 = Some (ScopeHandle 0)
   \<and> extras_open_callback_scope (NapiAsyncContext 512) (NapiValue 8) 1024 world0 = Returned () world1
   \<and> map_of (scopes world1) 1 =
       Some \<lparr>scope_isolate = 4096, scope_resource = 1,
             scope_async_context = \<lparr>async_id = 7, trigger_async_id = 3\<rparr>\<rparr>
   \<and> map_of (slots world1) 1024 = Some (ScopeHandle 1)
   \<and> run [Open (NapiAsyncContext 528) (NapiValue 32) 1032, Close (ScopeHandle 2)] world1 =
       Returned () (world2\<lparr>async_stack := async_stack world1, scopes := scopes world1\<rparr>)"
proof -
  have h: "current_isolate world0 \<noteq> 0" "current_context world0 \<noteq> Local 0"
    "map_of (handles world0) 8 = Some (JSObject 1)"
    "map_of (async_contexts world0) 512 = Some \<lparr>async_id = 7, trigger_async_id = 3\<rparr>"
    "map_of (slots world0) 1024 = Some (ScopeHandle 0)"
    by (simp_all add: world0_def)
  have r: "run [Open (NapiAsyncContext 528) (NapiValue 32) 1032, Close (ScopeHandle 2)] world1 =
       Returned () (world2\<lparr>async_stack := async_stack world1, scopes := scopes world1\<rparr>)"
    by (simp add: open_world1 close_world2 obind_def)
  have m: "map_of (scopes world1) 1 =
       Some \<lparr>scope_isolate = 4096, scope_resource = 1,
             scope_async_context = \<lparr>async_id = 7, trigger_async_id = 3\<rparr>\<rparr>"
    "map_of (slots world1) 1024 = Some (ScopeHandle 1)"
    by (simp_all add: world1_def)
  from open_object_resource_succeeds [OF h] h open_world0 r m show ?thesis by blast
qed




text \<open>
  Claim C5: for a value handle that designates an object, the conversion step (the
  bit copy of \<open>V8LocalValueFromJsValue\<close>, then \<open>ToObject\<close> and \<open>ToLocalChecked\<close>)
  returns the handle it was given, so the reference is to the same object, and leaves
  the whole state as it was: nothing is allocated and nothing else happens.
\<close>

theorem conversion_of_object_aliases:
  assumes "map_of (handles w) a = Some (JSObject r)"
  shows "V8LocalValueFromJsValue (NapiValue a) = Local a
    \<and> obind (Value_ToObject (V8LocalValueFromJsValue (NapiValue a)) context w)
        MaybeLocal_ToLocalChecked = Returned (Local a) w"
  using assms
  by (simp add: V8LocalValueFromJsValue_def Value_ToObject_def MaybeLocal_ToLocalChecked_def
      obind_def)

theorem conversion_of_object_aliases_witness:
  "map_of (handles world0) 8 = Some (JSObject 1)
   \<and> V8LocalValueFromJsValue (NapiValue 8) = Local 8
   \<and> obind (Value_ToObject (V8LocalValueFromJsValue (NapiValue 8)) (current_context world0) world0)
        MaybeLocal_ToLocalChecked = Returned (Local 8) world0"
proof -
  have h: "map_of (handles world0) 8 = Some (JSObject 1)"
    by (simp add: world0_def)
  from conversion_of_object_aliases [OF h, of "current_context world0"] h
  show ?thesis by blast
qed

text \<open>
  Claim C6, as the code has it. The claim reads: when the current execution context
  cannot be resolved, the open fails fatally, the failure is surfaced and no scope is
  constructed. The code checks neither the isolate pointer nor the context handle. On
  an object resource and a valid async context: when an isolate is current but no
  context is entered in it, every statement of the open returns up to the scope's
  constructor, which aborts the process, with no scope constructed, no frame pushed and
  the caller's variable not written; when no isolate is current at all, the open calls a
  member function through the null pointer, which is undefined behaviour.
\<close>

theorem open_without_context_is_fatal:
  assumes "map_of (handles w) a = Some (JSObject r)"
    and "map_of (async_contexts w) p = Some actx"
  shows "(current_isolate w \<noteq> 0 \<and> current_context w = Local 0 \<longrightarrow>
            extras_open_callback_scope (NapiAsyncContext p) (NapiValue a) s w = Fatal w)
    \<and> (current_isolate w = 0 \<longrightarrow>
            extras_open_callback_scope (NapiAsyncContext p) (NapiValue a) s w = Undefined)"
  using assms by (simp add: bridge_defs Let_def)

theorem open_without_context_is_fatal_witness:
  "map_of (handles world0) 8 = Some (JSObject 1)
   \<and> map_of (async_contexts world0) 512 = Some \<lparr>async_id = 7, trigger_async_id = 3\<rparr>
   \<and> current_isolate (world0\<lparr>current_context := Local 0\<rparr>) \<noteq> 0
   \<and> current_context (world0\<lparr>current_context := Local 0\<rparr>) = Local 0
   \<and> extras_open_callback_scope (NapiAsyncContext 512) (NapiValue 8) 1024
        (world0\<lparr>current_context := Local 0\<rparr>) = Fatal (world0\<lparr>current_context := Local 0\<rparr>)"
proof -
  let ?w = "world0\<lparr>current_context := Local 0\<rparr>"
  have h: "map_of (handles ?w) 8 = Some (JSObject 1)"
    "map_of (async_contexts ?w) 512 = Some \<lparr>async_id = 7, trigger_async_id = 3\<rparr>"
    by (simp_all add: world0_def)
  have g: "current_isolate ?w \<noteq> 0" "current_context ?w = Local 0"
    by (simp_all add: world0_def)
  from open_without_context_is_fatal [OF h, of 1024] g
  have "extras_open_callback_scope (NapiAsyncContext 512) (NapiValue 8) 1024 ?w = Fatal ?w"
    by blast
  moreover have "map_of (handles world0) 8 = Some (JSObject 1)"
    "map_of (async_contexts world0) 512 = Some \<lparr>async_id = 7, trigger_async_id = 3\<rparr>"
    by (simp_all add: world0_def)
  ultimately show ?thesis using g by blast
qed

text \<open>
  Claim C6 as stated fails with no current isolate: the outcome is undefined behaviour,
  not a fatal error.
\<close>

theorem open_no_isolate_counterexample:
  "current_isolate (world0\<lparr>current_isolate := 0\<rparr>) = 0
   \<and> extras_open_callback_scope (NapiAsyncContext 512) (NapiValue 8) 1024
        (world0\<lparr>current_isolate := 0\<rparr>) = Undefined
   \<and> extras_open_callback_scope (NapiAsyncContext 512) (NapiValue 8) 1024
        (world0\<lparr>current_isolate := 0\<rparr>) \<noteq> Fatal (world0\<lparr>current_isolate := 0\<rparr>)"
  by (simp add: bridge_defs)

text \<open>
  Claim C8: an open that returns has stored exactly once through \<open>result\<close>, and what
  it stored is the handle of a non-null address that was not in use before the call and
  now holds the new scope.
\<close>

theorem open_stores_nonnull_handle_once:
  assumes "extras_open_callback_scope c v s w = Returned u w1"
  shows "\<exists>p sc. p \<noteq> 0 \<and> map_of (scopes w) p = None \<and> map_of (scopes w1) p = Some sc
    \<and> stores w1 = stores w @ [(s, cast_to_extras_callback_scope p)]
    \<and> map_of (slots w1) s = Some (cast_to_extras_callback_scope p)"
proof -
  from open_returned [OF assms] obtain sc where
    sc: "scopes w1 = (fresh (scopes w), sc) # scopes w"
    and st: "stores w1 = stores w @ [(s, ScopeHandle (fresh (scopes w)))]"
    and sl: "map_of (slots w1) s = Some (ScopeHandle (fresh (scopes w)))"
    by blast
  have "fresh (scopes w) \<noteq> 0" using fresh_pos [of "scopes w"] by simp
  moreover have "map_of (scopes w) (fresh (scopes w)) = None" by (rule map_of_fresh)
  moreover have "map_of (scopes w1) (fresh (scopes w)) = Some sc" by (simp add: sc)
  ultimately show ?thesis
    using st sl by (auto simp: cast_to_extras_callback_scope_def)
qed

theorem open_stores_nonnull_handle_once_witness:
  "extras_open_callback_scope (NapiAsyncContext 512) (NapiValue 8) 1024 world0 = Returned () world1
   \<and> map_of (scopes world0) 1 = None
   \<and> map_of (scopes world1) 1 =
       Some \<lparr>scope_isolate = 4096, scope_resource = 1,
             scope_async_context = \<lparr>async_id = 7, trigger_async_id = 3\<rparr>\<rparr>
   \<and> stores world1 = stores world0 @ [(1024, cast_to_extras_callback_scope 1)]
   \<and> map_of (slots world1) 1024 = Some (cast_to_extras_callback_scope 1)"
  using open_stores_nonnull_handle_once [OF open_world0] open_world0
  by (simp add: world0_def world1_def cast_to_extras_callback_scope_def)

text \<open>
  Claim C9: the handle an open stored casts back to the very address the open
  allocated, so the close of that handle deletes the scope the open created: right
  after the open, it returns and leaves the heap of scopes and the async-context stack
  as they were before the open.
\<close>

theorem handle_roundtrip:
  assumes "extras_open_callback_scope c v s w = Returned u w1"
  shows "\<exists>p sc w2. scopes w1 = (p, sc) # scopes w
    \<and> map_of (slots w1) s = Some (cast_to_extras_callback_scope p)
    \<and> cast_to_CallbackScope (cast_to_extras_callback_scope p) = p
    \<and> extras_close_callback_scope (cast_to_extras_callback_scope p) w1 = Returned () w2
    \<and> scopes w2 = scopes w \<and> async_stack w2 = async_stack w"
proof -
  define p where "p = fresh (scopes w)"
  from open_returned [OF assms] obtain sc where
    sc: "scopes w1 = (p, sc) # scopes w"
    and st: "async_stack w1 = (scope_async_context sc, scope_resource sc) # async_stack w"
    and sl: "map_of (slots w1) s = Some (ScopeHandle p)"
    unfolding p_def by blast
  have nz: "p \<noteq> 0" using fresh_pos [of "scopes w"] by (simp add: p_def)
  have live: "map_of (scopes w1) p = Some sc" by (simp add: sc)
  have del: "AList.delete p (scopes w1) = scopes w"
    using fresh_notin [of "scopes w"] by (simp add: sc p_def)
  from close_live [OF nz live st]
  have "extras_close_callback_scope (ScopeHandle p) w1 =
      Returned () (w1\<lparr>async_stack := async_stack w, scopes := scopes w\<rparr>)"
    by (simp add: del)
  with sc sl show ?thesis
    by (auto simp: cast_to_extras_callback_scope_def cast_to_CallbackScope_def)
qed

theorem handle_roundtrip_witness:
  "extras_open_callback_scope (NapiAsyncContext 528) (NapiValue 32) 1032 world1 = Returned () world2
   \<and> map_of (slots world2) 1032 = Some (cast_to_extras_callback_scope 2)
   \<and> cast_to_CallbackScope (cast_to_extras_callback_scope 2) = 2
   \<and> extras_close_callback_scope (cast_to_extras_callback_scope 2) world2 =
       Returned () (world2\<lparr>async_stack := async_stack world1, scopes := scopes world1\<rparr>)"
  using handle_roundtrip [OF open_world1] open_world1 close_world2
  by (simp add: world2_def cast_to_extras_callback_scope_def cast_to_CallbackScope_def)

text \<open>
  Claim C10: closing the null handle deletes nothing and returns, the state unchanged.
\<close>

theorem close_null_handle_is_noop:
  "extras_close_callback_scope (ScopeHandle 0) w = Returned () w"
  by (simp add: bridge_defs)

end
